theory Spec2Isabelle
  imports Complex_Main
begin

section \<open>Python values\<close>

text \<open>
  A Python \<open>float\<close> is a finite number, one of the two infinities, or NaN. Every finite
  double is a rational, so finite floats are embedded in \<open>rat\<close>. The only float
  operations of \<open>backend/routes/iot.py\<close> are \<open>abs\<close> and the comparison \<open>> 0.15\<close>;
  every comparison with NaN is false. The literal \<open>0.15\<close> is read as the rational
  \<open>15/100\<close>: the double nearest to it lies below it and the next double above it, so
  on doubles the two comparisons agree.
\<close>

datatype pyfloat = Finite rat | PosInf | NegInf | NaN

fun py_abs :: "pyfloat \<Rightarrow> pyfloat" where
  "py_abs (Finite x) = Finite \<bar>x\<bar>"
| "py_abs PosInf = PosInf"
| "py_abs NegInf = PosInf"
| "py_abs NaN = NaN"

fun py_gt :: "pyfloat \<Rightarrow> pyfloat \<Rightarrow> bool" where
  "py_gt NaN _ = False"
| "py_gt _ NaN = False"
| "py_gt (Finite x) (Finite y) = (x > y)"
| "py_gt PosInf PosInf = False"
| "py_gt PosInf _ = True"
| "py_gt NegInf _ = False"
| "py_gt (Finite x) NegInf = True"
| "py_gt (Finite x) PosInf = False"

text \<open>
  The values stored in the dictionaries of the endpoint. A \<open>str\<close> is a list of bytes
  (UTF-8); \<open>dict.get\<close> returns \<open>None\<close> for a missing key. A dictionary keeps its
  insertion order, so it is an association list.
\<close>

datatype pyval = PNone | PInt int | PFloat pyfloat | PStr string

type_synonym pydict = "(string \<times> pyval) list"

definition dict_get :: "pydict \<Rightarrow> string \<Rightarrow> pyval" where
  "dict_get d k = (case map_of d k of None \<Rightarrow> PNone | Some v \<Rightarrow> v)"

text \<open>
  A Python exception of class \<open>Exception\<close> or below, with its message. What lies outside
  that class (the cancellation of a task, the exit of the interpreter) is not modelled.
\<close>

datatype exn = Exception string

section \<open>The input record\<close>

text \<open>\<open>class IoTInput(BaseModel)\<close>: the fields, typed as pydantic has validated them.\<close>

record IoTInput =
  timestamp :: string
  store :: int
  dept :: int
  Weekly_Sales :: pyfloat
  Temperature :: pyfloat
  Fuel_Price :: pyfloat
  CPI :: pyfloat
  Unemployment :: pyfloat
  IsHoliday :: int

text \<open>\<open>data.dict()\<close>: the fields in declaration order.\<close>

definition to_dict :: "IoTInput \<Rightarrow> pydict" where
  "to_dict data =
     [(''timestamp'', PStr (timestamp data)),
      (''store'', PInt (store data)),
      (''dept'', PInt (dept data)),
      (''Weekly_Sales'', PFloat (Weekly_Sales data)),
      (''Temperature'', PFloat (Temperature data)),
      (''Fuel_Price'', PFloat (Fuel_Price data)),
      (''CPI'', PFloat (CPI data)),
      (''Unemployment'', PFloat (Unemployment data)),
      (''IsHoliday'', PInt (IsHoliday data))]"

text \<open>
  The one-row \<open>pd.DataFrame\<close> handed to the model: the columns in the order of the
  source, with \<open>store\<close> and \<open>dept\<close> capitalised.
\<close>

definition make_df :: "IoTInput \<Rightarrow> pydict" where
  "make_df data =
     [(''Weekly_Sales'', PFloat (Weekly_Sales data)),
      (''Temperature'', PFloat (Temperature data)),
      (''Fuel_Price'', PFloat (Fuel_Price data)),
      (''CPI'', PFloat (CPI data)),
      (''Unemployment'', PFloat (Unemployment data)),
      (''Store'', PInt (store data)),
      (''Dept'', PInt (dept data)),
      (''IsHoliday'', PInt (IsHoliday data))]"

section \<open>Risk score and risk level\<close>

text \<open>
  Lines 103 to 112 of \<open>iot_ingest\<close>, which the endpoint has inline: the score starts at
  0 and three \<open>if\<close> statements add to it in turn; the level is the chained conditional
  expression.
\<close>

definition risk_score :: "int \<Rightarrow> pyfloat \<Rightarrow> int \<Rightarrow> int" where
  "risk_score anomaly_flag anomaly_score cluster_id =
     (let score = 0;
          score = (if anomaly_flag = - 1 then score + 40 else score);
          score = (if py_gt (py_abs anomaly_score) (Finite (15 / 100)) then score + 10 else score);
          score = (if cluster_id \<in> set [6, 7] then score + 20 else score)
      in score)"

definition risk_level :: "int \<Rightarrow> string" where
  "risk_level score =
     (if score \<ge> 60 then ''HIGH'' else if score \<ge> 30 then ''MEDIUM'' else ''LOW'')"

section \<open>The scoring model\<close>

text \<open>
  The object returned by \<open>get_model()\<close> (module \<open>ml.model\<close>) is a parameter of the
  endpoint. Each of its two entry points either raises or returns.
  \<open>detect_anomalies\<close> stands for lines 83 to 85: the call on the data frame, the
  selection of row 0, and the conversions \<open>int(anomaly["anomaly"])\<close> and
  \<open>float(anomaly["anomaly_score"])\<close>; \<open>cluster\<close> stands for line 95.
\<close>

record ml_model =
  detect_anomalies :: "pydict \<Rightarrow> exn + int \<times> pyfloat"
  cluster :: "pydict \<Rightarrow> exn + int"

section \<open>The rows written to the database\<close>

text \<open>The four mapped classes of \<open>models\<close>, with the columns the endpoint fills.\<close>

record AnomalyLog =
  al_timestamp :: string
  al_value :: pyfloat
  al_score :: pyfloat
  al_is_anomaly :: bool

record ClusterLog =
  cl_store :: int
  cl_dept :: int
  cl_cluster :: int
  cl_features :: pydict

record RiskLog =
  rl_store :: int
  rl_dept :: int
  rl_risk_score :: int
  rl_risk_level :: string
  rl_anomaly :: int
  rl_cluster :: int

record Alert =
  at_store :: int
  at_dept :: int
  at_message :: string
  at_risk_score :: int

datatype row =
  AnomalyLogRow AnomalyLog
| ClusterLogRow ClusterLog
| RiskLogRow RiskLog
| AlertRow Alert

text \<open>
  Modelled from the spec: \<open>database.SessionLocal\<close> is not among the sources. The
  persistence sink is an append-only store written as one atomic unit: \<open>db.add\<close> stages
  a row in the session, \<open>db.commit()\<close> either raises and leaves the store as it was or
  appends every staged row, and a session closed without a commit (the \<open>finally\<close> of
  \<open>get_db\<close>) leaves nothing behind. Whether a commit raises is a parameter
  \<open>db_commit\<close> of the endpoint, from the staged rows to the exception raised, if any.
\<close>

type_synonym session = "row list"

text \<open>
  Modelled from the spec: \<open>Session.add\<close> of the session that the absent
  \<open>database.SessionLocal\<close> makes; the row is staged after those staged before, and
  nothing is written yet.
\<close>

definition db_add :: "session \<Rightarrow> row \<Rightarrow> session" where
  "db_add db r = db @ [r]"

text \<open>
  What outlives a request: the durable rows, and the tasks that \<open>asyncio.create_task\<close>
  has handed to the event loop and that have not run yet, each with the two
  dictionaries \<open>broadcast_update\<close> was called with.
\<close>

record world =
  committed :: "row list"
  tasks :: "(pydict \<times> pydict) list"

section \<open>The endpoint\<close>

text \<open>
  \<open>iot_ingest\<close>, statement by statement. An exception of the model or of the commit
  leaves the function at once: the session is closed with its staged rows, no result is
  built and no task is created. The request gets a fresh session from \<open>get_db\<close>.
  The two \<open>logger\<close> calls write to the log only and are left out.
\<close>

definition iot_ingest ::
  "ml_model \<Rightarrow> (row list \<Rightarrow> exn option) \<Rightarrow> IoTInput \<Rightarrow> world \<Rightarrow> (exn + pydict) \<times> world" where
  "iot_ingest model db_commit data w =
     (let df = make_df data; db = [] in
      case detect_anomalies model df of
        Inl e \<Rightarrow> (Inl e, w)
      | Inr (anomaly_flag, anomaly_score) \<Rightarrow>
          let db = db_add db (AnomalyLogRow
                \<lparr>al_timestamp = timestamp data, al_value = Weekly_Sales data,
                 al_score = anomaly_score, al_is_anomaly = (anomaly_flag = - 1)\<rparr>)
          in
          (case cluster model df of
             Inl e \<Rightarrow> (Inl e, w)
           | Inr cluster_id \<Rightarrow>
               let db = db_add db (ClusterLogRow
                     \<lparr>cl_store = store data, cl_dept = dept data,
                      cl_cluster = cluster_id, cl_features = to_dict data\<rparr>);
                   score = risk_score anomaly_flag anomaly_score cluster_id;
                   level = risk_level score;
                   risk_row = \<lparr>rl_store = store data, rl_dept = dept data,
                      rl_risk_score = score, rl_risk_level = level,
                      rl_anomaly = anomaly_flag, rl_cluster = cluster_id\<rparr>;
                   db = db_add db (RiskLogRow risk_row);
                   db = (if level = ''HIGH''
                         then db_add db (AlertRow
                           \<lparr>at_store = store data, at_dept = dept data,
                            at_message = CHR 0xE2 # CHR 0x9A # CHR 0xA0 #
                              '' High risk detected from IoT update'',
                            at_risk_score = score\<rparr>)
                         else db)
               in
               (case db_commit db of
                  Some e \<Rightarrow> (Inl e, w)
                | None \<Rightarrow>
                    let result =
                          [(''status'', PStr ''success''),
                           (''anomaly'', PInt anomaly_flag),
                           (''anomaly_score'', PFloat anomaly_score),
                           (''cluster'', PInt cluster_id),
                           (''risk_level'', PStr level),
                           (''risk_score'', PInt score)]
                    in (Inr result,
                        w\<lparr>committed := committed w @ db,
                          tasks := tasks w @ [(to_dict data, result)]\<rparr>))))"

section \<open>The broadcast task\<close>

text \<open>
  The two calls \<open>broadcast_update\<close> makes on \<open>websocket_manager.manager\<close>, with their
  arguments. The manager is a parameter: applied to a call and its own state it returns
  the exception the call raises, if any, and its new state.
\<close>

datatype call =
  Broadcast_iot_update pydict pydict
| Broadcast_alert pyval pyval string pyval

type_synonym 'm manager = "call \<Rightarrow> 'm \<Rightarrow> exn option \<times> 'm"

text \<open>
  The body of the \<open>try\<close>: the update is broadcast first; the alert follows only when
  the update returned and the result's level is the string HIGH. The calls made are
  collected in order.
\<close>

definition broadcast_try ::
  "'m manager \<Rightarrow> pydict \<Rightarrow> pydict \<Rightarrow> 'm \<Rightarrow> (exn + unit) \<times> call list \<times> 'm" where
  "broadcast_try mgr data result m =
     (let c1 = Broadcast_iot_update data result in
      case mgr c1 m of
        (Some e, m1) \<Rightarrow> (Inl e, [c1], m1)
      | (None, m1) \<Rightarrow>
          if dict_get result ''risk_level'' = PStr ''HIGH'' then
            (let c2 = Broadcast_alert (dict_get data ''store'') (dict_get data ''dept'')
                        (CHR 0xE2 # CHR 0x9A # CHR 0xA0 #
                           '' High risk detected from IoT update'')
                        (dict_get result ''risk_score'')
             in case mgr c2 m1 of
                  (Some e, m2) \<Rightarrow> (Inl e, [c1, c2], m2)
                | (None, m2) \<Rightarrow> (Inr (), [c1, c2], m2))
          else (Inr (), [c1], m1))"

text \<open>
  \<open>broadcast_update\<close>: the \<open>except Exception\<close> clause turns an exception of the body
  into one \<open>logger.error\<close> line, and the coroutine returns.
\<close>

record 'm outcome =
  returned :: "exn + unit"
  calls :: "call list"
  logged :: "exn list"
  manager_state :: 'm

definition broadcast_update :: "'m manager \<Rightarrow> pydict \<Rightarrow> pydict \<Rightarrow> 'm \<Rightarrow> 'm outcome" where
  "broadcast_update mgr data result m =
     (case broadcast_try mgr data result m of
        (Inl e, cs, m') \<Rightarrow>
          \<lparr>returned = Inr (), calls = cs, logged = [e], manager_state = m'\<rparr>
      | (Inr u, cs, m') \<Rightarrow>
          \<lparr>returned = Inr u, calls = cs, logged = [], manager_state = m'\<rparr>)"

text \<open>
  The event loop runs the pending tasks in the order of their creation, after the
  coroutine that created them has returned. A task that ended with an exception would
  keep it to itself; the loop goes on with the next one.
\<close>

fun run_tasks :: "'m manager \<Rightarrow> (pydict \<times> pydict) list \<Rightarrow> 'm \<Rightarrow> 'm outcome list \<times> 'm" where
  "run_tasks mgr [] m = ([], m)"
| "run_tasks mgr ((data, result) # ts) m =
     (let out = broadcast_update mgr data result m;
          (outs, m') = run_tasks mgr ts (manager_state out)
      in (out # outs, m'))"

text \<open>
  One request served to the end: the endpoint returns its response, then the loop runs
  what is pending.
\<close>

definition serve ::
  "ml_model \<Rightarrow> (row list \<Rightarrow> exn option) \<Rightarrow> 'm manager \<Rightarrow> IoTInput \<Rightarrow> world \<Rightarrow> 'm
     \<Rightarrow> (exn + pydict) \<times> world \<times> 'm outcome list \<times> 'm" where
  "serve model db_commit mgr data w m =
     (let (response, w1) = iot_ingest model db_commit data w;
          (outs, m') = run_tasks mgr (tasks w1) m
      in (response, w1\<lparr>tasks := []\<rparr>, outs, m'))"

section \<open>The subscriber registry\<close>




section \<open>Reading the store\<close>

text \<open>The rows a request added to the store, and the rows of each kind among them.\<close>

definition new_rows :: "world \<Rightarrow> world \<Rightarrow> row list" where
  "new_rows w w' = drop (length (committed w)) (committed w')"

fun anomaly_logs :: "row list \<Rightarrow> AnomalyLog list" where
  "anomaly_logs [] = []"
| "anomaly_logs (AnomalyLogRow a # rs) = a # anomaly_logs rs"
| "anomaly_logs (_ # rs) = anomaly_logs rs"

fun cluster_logs :: "row list \<Rightarrow> ClusterLog list" where
  "cluster_logs [] = []"
| "cluster_logs (ClusterLogRow c # rs) = c # cluster_logs rs"
| "cluster_logs (_ # rs) = cluster_logs rs"

fun risk_logs :: "row list \<Rightarrow> RiskLog list" where
  "risk_logs [] = []"
| "risk_logs (RiskLogRow r # rs) = r # risk_logs rs"
| "risk_logs (_ # rs) = risk_logs rs"

fun alerts :: "row list \<Rightarrow> Alert list" where
  "alerts [] = []"
| "alerts (AlertRow a # rs) = a # alerts rs"
| "alerts (_ # rs) = alerts rs"

section \<open>Shorthands for the statements\<close>

text \<open>
  The message literal, which the source writes out twice (line 46 and line 129), the
  dictionary built at lines 136 to 143, and the rows staged by lines 87 to 131, as
  functions of the model's three outputs. They abbreviate the statements below; the
  definitions above do not use them.
\<close>

abbreviation high_risk_message :: string where
  "high_risk_message \<equiv>
     CHR 0xE2 # CHR 0x9A # CHR 0xA0 # '' High risk detected from IoT update''"

abbreviation summary :: "int \<Rightarrow> pyfloat \<Rightarrow> int \<Rightarrow> pydict" where
  "summary f a c \<equiv>
     [(''status'', PStr ''success''), (''anomaly'', PInt f),
      (''anomaly_score'', PFloat a), (''cluster'', PInt c),
      (''risk_level'', PStr (risk_level (risk_score f a c))),
      (''risk_score'', PInt (risk_score f a c))]"

abbreviation staged :: "IoTInput \<Rightarrow> int \<Rightarrow> pyfloat \<Rightarrow> int \<Rightarrow> row list" where
  "staged data f a c \<equiv>
     [AnomalyLogRow \<lparr>al_timestamp = timestamp data, al_value = Weekly_Sales data,
                     al_score = a, al_is_anomaly = (f = - 1)\<rparr>,
      ClusterLogRow \<lparr>cl_store = store data, cl_dept = dept data,
                     cl_cluster = c, cl_features = to_dict data\<rparr>,
      RiskLogRow \<lparr>rl_store = store data, rl_dept = dept data,
                  rl_risk_score = risk_score f a c,
                  rl_risk_level = risk_level (risk_score f a c),
                  rl_anomaly = f, rl_cluster = c\<rparr>]
     @ (if risk_level (risk_score f a c) = ''HIGH''
        then [AlertRow \<lparr>at_store = store data, at_dept = dept data,
                        at_message = high_risk_message,
                        at_risk_score = risk_score f a c\<rparr>]
        else [])"

section \<open>Concrete inputs\<close>

text \<open>
  A reading as the simulator sends it, three scoring models (one that marks the reading
  an outlier in cluster 7, one that finds it normal in cluster 1, one whose
  cluster step raises), a store whose commits succeed, an idle process, a registry
  with one live and one closed subscriber, a manager that raises on every call and one
  that returns from every call.
\<close>

definition ex_data :: IoTInput where
  "ex_data = \<lparr>timestamp = ''2025-01-01T00:00:00'', store = 12, dept = 34,
     Weekly_Sales = Finite 25000, Temperature = Finite 21, Fuel_Price = Finite 3,
     CPI = Finite 200, Unemployment = Finite 7, IsHoliday = 0\<rparr>"

definition ex_outlier_model :: ml_model where
  "ex_outlier_model =
     \<lparr>detect_anomalies = (\<lambda>df. Inr (- 1, Finite (20 / 100))), cluster = (\<lambda>df. Inr 7)\<rparr>"

definition ex_normal_model :: ml_model where
  "ex_normal_model =
     \<lparr>detect_anomalies = (\<lambda>df. Inr (1, Finite (5 / 100))), cluster = (\<lambda>df. Inr 1)\<rparr>"

definition ex_broken_model :: ml_model where
  "ex_broken_model =
     \<lparr>detect_anomalies = (\<lambda>df. Inr (- 1, Finite (20 / 100))),
      cluster = (\<lambda>df. Inl (Exception ''model not loaded''))\<rparr>"

definition ex_commit :: "row list \<Rightarrow> exn option" where
  "ex_commit rows = None"

definition ex_world :: world where
  "ex_world = \<lparr>committed = [], tasks = []\<rparr>"


definition ex_failing_manager :: "unit manager" where
  "ex_failing_manager c m = (Some (Exception ''connection closed''), m)"


section \<open>The risk classifier\<close>

lemma risk_score_sum:
  "risk_score f a c =
     (if f = - 1 then 40 else 0)
     + (if py_gt (py_abs a) (Finite (15 / 100)) then 10 else 0)
     + (if c = 6 \<or> c = 7 then 20 else 0)"
  by (simp add: risk_score_def)

lemma risk_score_range: "0 \<le> risk_score f a c \<and> risk_score f a c \<le> 70"
  by (simp add: risk_score_sum)

lemma risk_level_HIGH: "(risk_level s = ''HIGH'') = (s \<ge> 60)"
  by (simp add: risk_level_def)

lemma risk_level_MEDIUM: "(risk_level s = ''MEDIUM'') = (30 \<le> s \<and> s < 60)"
  by (auto simp add: risk_level_def)

lemma risk_level_LOW: "(risk_level s = ''LOW'') = (s < 30)"
  by (auto simp add: risk_level_def)

lemma py_gt_abs_Finite: "py_gt (py_abs (Finite x)) (Finite y) = (\<bar>x\<bar> > y)"
  by simp

text \<open>
  C1. For every anomaly flag, anomaly score and cluster id the score is the sum of the
  three additive rules (40 when the flag is the outlier code \<open>-1\<close>, 10 when the absolute
  anomaly score exceeds 0.15, 20 when the cluster id is 6 or 7) and lies between 0 and
  70; for a finite anomaly score the second rule is the comparison of rationals. The
  level is HIGH exactly from 60 up, MEDIUM exactly from 30 up to below 60, LOW exactly
  below 30; a score of exactly 30 is MEDIUM and one of exactly 60 is HIGH.
\<close>

theorem C1_classify:
  "risk_score f a c =
     (if f = - 1 then 40 else 0)
     + (if py_gt (py_abs a) (Finite (15 / 100)) then 10 else 0)
     + (if c = 6 \<or> c = 7 then 20 else 0)
   \<and> py_gt (py_abs (Finite x)) (Finite (15 / 100)) = (\<bar>x\<bar> > 15 / 100)
   \<and> 0 \<le> risk_score f a c \<and> risk_score f a c \<le> 70
   \<and> (risk_level s = ''HIGH'') = (s \<ge> 60)
   \<and> (risk_level s = ''MEDIUM'') = (30 \<le> s \<and> s < 60)
   \<and> (risk_level s = ''LOW'') = (s < 30)
   \<and> risk_level 30 = ''MEDIUM'' \<and> risk_level 60 = ''HIGH''"
  using risk_score_sum [of f a c] risk_score_range [of f a c]
    risk_level_HIGH [of s] risk_level_MEDIUM [of s] risk_level_LOW [of s]
    risk_level_MEDIUM [of 30] risk_level_HIGH [of 60] py_gt_abs_Finite [of x "15 / 100"]
  by simp

section \<open>The endpoint, case by case\<close>

lemma iot_ingest_scored:
  assumes "detect_anomalies model (make_df data) = Inr (f, a)"
    and "cluster model (make_df data) = Inr c"
  shows "iot_ingest model db_commit data w =
     (case db_commit (staged data f a c) of
        Some e \<Rightarrow> (Inl e, w)
      | None \<Rightarrow> (Inr (summary f a c),
          w\<lparr>committed := committed w @ staged data f a c,
            tasks := tasks w @ [(to_dict data, summary f a c)]\<rparr>))"
proof (cases "risk_level (risk_score f a c) = ''HIGH''")
  case True
  with assms show ?thesis
    by (simp add: iot_ingest_def db_add_def Let_def split: option.split)
next
  case False
  with assms show ?thesis
    by (simp add: iot_ingest_def db_add_def Let_def split: option.split)
qed

lemma iot_ingest_detect_fails:
  "detect_anomalies model (make_df data) = Inl e \<Longrightarrow>
   iot_ingest model db_commit data w = (Inl e, w)"
  by (simp add: iot_ingest_def)

lemma iot_ingest_cluster_fails:
  "detect_anomalies model (make_df data) = Inr p \<Longrightarrow>
   cluster model (make_df data) = Inl e \<Longrightarrow>
   iot_ingest model db_commit data w = (Inl e, w)"
  by (cases p) (simp add: iot_ingest_def Let_def)

lemma iot_ingest_ok:
  assumes "detect_anomalies model (make_df data) = Inr (f, a)"
    and "cluster model (make_df data) = Inr c"
    and "db_commit (staged data f a c) = None"
  shows "iot_ingest model db_commit data w =
     (Inr (summary f a c),
      w\<lparr>committed := committed w @ staged data f a c,
        tasks := tasks w @ [(to_dict data, summary f a c)]\<rparr>)"
  using iot_ingest_scored [where db_commit = db_commit and w = w, OF assms(1,2)] assms(3)
  by simp

lemma iot_ingest_Inr:
  assumes "iot_ingest model db_commit data w = (Inr result, w')"
  shows "\<exists>f a c.
     detect_anomalies model (make_df data) = Inr (f, a)
     \<and> cluster model (make_df data) = Inr c
     \<and> db_commit (staged data f a c) = None
     \<and> result = summary f a c
     \<and> w' = w\<lparr>committed := committed w @ staged data f a c,
               tasks := tasks w @ [(to_dict data, result)]\<rparr>"
proof (cases "detect_anomalies model (make_df data)")
  case (Inl e)
  from iot_ingest_detect_fails [OF this] assms show ?thesis by simp
next
  case (Inr p)
  obtain f a where p: "p = (f, a)" by (cases p)
  show ?thesis
  proof (cases "cluster model (make_df data)")
    case (Inl e)
    from iot_ingest_cluster_fails [OF Inr this] assms show ?thesis by simp
  next
    case c: (Inr c)
    have d: "detect_anomalies model (make_df data) = Inr (f, a)" using Inr p by simp
    show ?thesis
    proof (cases "db_commit (staged data f a c)")
      case (Some e)
      with iot_ingest_scored [where db_commit = db_commit and w = w, OF d c] assms
      show ?thesis by simp
    next
      case None
      from iot_ingest_ok [where db_commit = db_commit and w = w, OF d c None] assms
      have "result = summary f a c"
        and "w' = w\<lparr>committed := committed w @ staged data f a c,
               tasks := tasks w @ [(to_dict data, result)]\<rparr>"
        by simp_all
      with d c None show ?thesis by blast
    qed
  qed
qed

section \<open>What a successful request leaves behind\<close>

lemma new_rows_append: "committed w' = committed w @ rs \<Longrightarrow> new_rows w w' = rs"
  by (simp add: new_rows_def)

lemma anomaly_logs_staged:
  "anomaly_logs (staged data f a c) =
     [\<lparr>al_timestamp = timestamp data, al_value = Weekly_Sales data,
       al_score = a, al_is_anomaly = (f = - 1)\<rparr>]"
  by simp

lemma cluster_logs_staged:
  "cluster_logs (staged data f a c) =
     [\<lparr>cl_store = store data, cl_dept = dept data,
       cl_cluster = c, cl_features = to_dict data\<rparr>]"
  by simp

lemma risk_logs_staged:
  "risk_logs (staged data f a c) =
     [\<lparr>rl_store = store data, rl_dept = dept data,
       rl_risk_score = risk_score f a c,
       rl_risk_level = risk_level (risk_score f a c),
       rl_anomaly = f, rl_cluster = c\<rparr>]"
  by simp

lemma alerts_staged:
  "alerts (staged data f a c) =
     (if risk_level (risk_score f a c) = ''HIGH''
      then [\<lparr>at_store = store data, at_dept = dept data,
              at_message = high_risk_message, at_risk_score = risk_score f a c\<rparr>]
      else [])"
  by simp

lemma dict_get_summary_level:
  "dict_get (summary f a c) ''risk_level'' = PStr (risk_level (risk_score f a c))"
  by (simp add: dict_get_def)

lemma dict_get_summary_score:
  "dict_get (summary f a c) ''risk_score'' = PInt (risk_score f a c)"
  by (simp add: dict_get_def)

lemma iot_ingest_new_rows:
  assumes "iot_ingest model db_commit data w = (Inr result, w')"
  shows "\<exists>f a c.
     detect_anomalies model (make_df data) = Inr (f, a)
     \<and> cluster model (make_df data) = Inr c
     \<and> result = summary f a c
     \<and> committed w' = committed w @ new_rows w w'
     \<and> new_rows w w' = staged data f a c
     \<and> tasks w' = tasks w @ [(to_dict data, result)]"
proof -
  from iot_ingest_Inr [OF assms] obtain f a c where
    d: "detect_anomalies model (make_df data) = Inr (f, a)"
    and c: "cluster model (make_df data) = Inr c"
    and r: "result = summary f a c"
    and w': "w' = w\<lparr>committed := committed w @ staged data f a c,
               tasks := tasks w @ [(to_dict data, result)]\<rparr>"
    by blast
  from w' have cm: "committed w' = committed w @ staged data f a c" by simp
  from w' have t: "tasks w' = tasks w @ [(to_dict data, result)]" by simp
  from new_rows_append [OF cm] have n: "new_rows w w' = staged data f a c" .
  from cm n have "committed w' = committed w @ new_rows w w'" by simp
  with d c r n t show ?thesis by blast
qed

section \<open>Alerts\<close>

text \<open>
  C2. For every call of the endpoint that returns a result, the rows it added to the
  store contain an alert exactly when the risk level computed in that call (the level
  of the response and of the risk row) is HIGH, and then exactly one, with the
  record's store and department, the message and the call's risk score; a LOW or
  MEDIUM call adds none.
\<close>

theorem C2_alert_iff_high:
  assumes "iot_ingest model db_commit data w = (Inr result, w')"
  shows "\<exists>s. dict_get result ''risk_score'' = PInt s
     \<and> dict_get result ''risk_level'' = PStr (risk_level s)
     \<and> map rl_risk_level (risk_logs (new_rows w w')) = [risk_level s]
     \<and> committed w' = committed w @ new_rows w w'
     \<and> alerts (new_rows w w') =
         (if risk_level s = ''HIGH''
          then [\<lparr>at_store = store data, at_dept = dept data,
                  at_message = high_risk_message, at_risk_score = s\<rparr>]
          else [])
     \<and> (alerts (new_rows w w') \<noteq> []) = (risk_level s = ''HIGH'')"
proof -
  from iot_ingest_new_rows [OF assms] obtain f a c where
    r: "result = summary f a c"
    and cm: "committed w' = committed w @ new_rows w w'"
    and n: "new_rows w w' = staged data f a c"
    by blast
  let ?s = "risk_score f a c"
  have 1: "dict_get result ''risk_score'' = PInt ?s"
    unfolding r by (rule dict_get_summary_score)
  have 2: "dict_get result ''risk_level'' = PStr (risk_level ?s)"
    unfolding r by (rule dict_get_summary_level)
  have 3: "map rl_risk_level (risk_logs (new_rows w w')) = [risk_level ?s]"
    unfolding n risk_logs_staged by simp
  have al: "alerts (new_rows w w') =
         (if risk_level ?s = ''HIGH''
          then [\<lparr>at_store = store data, at_dept = dept data,
                  at_message = high_risk_message, at_risk_score = ?s\<rparr>]
          else [])"
    unfolding n by (rule alerts_staged)
  have 5: "(alerts (new_rows w w') \<noteq> []) = (risk_level ?s = ''HIGH'')"
    unfolding al by simp
  show ?thesis
    by (rule exI [of _ ?s]) (intro conjI 1 2 3 cm al 5)
qed

section \<open>The concrete runs\<close>

lemma ex_outlier_run:
  "iot_ingest ex_outlier_model ex_commit ex_data ex_world =
     (Inr (summary (- 1) (Finite (20 / 100)) 7),
      ex_world\<lparr>committed := committed ex_world @ staged ex_data (- 1) (Finite (20 / 100)) 7,
        tasks := tasks ex_world @ [(to_dict ex_data, summary (- 1) (Finite (20 / 100)) 7)]\<rparr>)"
  by (rule iot_ingest_ok) (simp_all add: ex_outlier_model_def ex_commit_def)

lemma ex_normal_run:
  "iot_ingest ex_normal_model ex_commit ex_data ex_world =
     (Inr (summary 1 (Finite (5 / 100)) 1),
      ex_world\<lparr>committed := committed ex_world @ staged ex_data 1 (Finite (5 / 100)) 1,
        tasks := tasks ex_world @ [(to_dict ex_data, summary 1 (Finite (5 / 100)) 1)]\<rparr>)"
  by (rule iot_ingest_ok) (simp_all add: ex_normal_model_def ex_commit_def)


lemma ex_outlier_run_snd:
  "iot_ingest ex_outlier_model ex_commit ex_data ex_world =
     (Inr (summary (- 1) (Finite (20 / 100)) 7),
      snd (iot_ingest ex_outlier_model ex_commit ex_data ex_world))"
  unfolding ex_outlier_run by simp

lemma ex_normal_run_snd:
  "iot_ingest ex_normal_model ex_commit ex_data ex_world =
     (Inr (summary 1 (Finite (5 / 100)) 1),
      snd (iot_ingest ex_normal_model ex_commit ex_data ex_world))"
  unfolding ex_normal_run by simp

lemma ex_outlier_score: "risk_score (- 1) (Finite (20 / 100)) 7 = 70"
  by (simp add: risk_score_def)

lemma ex_normal_score: "risk_score 1 (Finite (5 / 100)) 1 = 0"
  by (simp add: risk_score_def)


theorem C2_alert_iff_high_witness:
  "alerts (new_rows ex_world (snd (iot_ingest ex_normal_model ex_commit ex_data ex_world))) = []
   \<and> alerts (new_rows ex_world (snd (iot_ingest ex_outlier_model ex_commit ex_data ex_world))) =
       [\<lparr>at_store = 12, at_dept = 34, at_message = high_risk_message, at_risk_score = 70\<rparr>]"
proof
  from C2_alert_iff_high [OF ex_normal_run_snd] obtain s where
    s: "dict_get (summary 1 (Finite (5 / 100)) 1) ''risk_score'' = PInt s"
    and al: "alerts (new_rows ex_world
               (snd (iot_ingest ex_normal_model ex_commit ex_data ex_world))) =
         (if risk_level s = ''HIGH''
          then [\<lparr>at_store = store ex_data, at_dept = dept ex_data,
                  at_message = high_risk_message, at_risk_score = s\<rparr>]
          else [])"
    by (elim exE conjE)
  from s have "s = 0" by (simp add: dict_get_def risk_score_def)
  with al show "alerts (new_rows ex_world
      (snd (iot_ingest ex_normal_model ex_commit ex_data ex_world))) = []"
    by (simp add: risk_level_def)
next
  from C2_alert_iff_high [OF ex_outlier_run_snd] obtain s where
    s: "dict_get (summary (- 1) (Finite (20 / 100)) 7) ''risk_score'' = PInt s"
    and al: "alerts (new_rows ex_world
               (snd (iot_ingest ex_outlier_model ex_commit ex_data ex_world))) =
         (if risk_level s = ''HIGH''
          then [\<lparr>at_store = store ex_data, at_dept = dept ex_data,
                  at_message = high_risk_message, at_risk_score = s\<rparr>]
          else [])"
    by (elim exE conjE)
  from s have "s = 70" by (simp add: dict_get_def risk_score_def)
  with al show "alerts (new_rows ex_world
      (snd (iot_ingest ex_outlier_model ex_commit ex_data ex_world))) =
       [\<lparr>at_store = 12, at_dept = 34, at_message = high_risk_message, at_risk_score = 70\<rparr>]"
    by (simp add: risk_level_def ex_data_def)
qed

section \<open>The values of the score\<close>

lemma risk_score_values:
  "risk_score f a c \<in> {0, 10, 20, 30, 40, 50, 60, 70}"
  by (simp add: risk_score_sum)

lemma risk_level_cases:
  "risk_level s = ''LOW'' \<or> risk_level s = ''MEDIUM'' \<or> risk_level s = ''HIGH''"
  by (simp add: risk_level_def)

text \<open>
  C9. For every anomaly flag, anomaly score and cluster id the score is one of 0, 10,
  20, 30, 40, 50, 60, 70; the level is LOW exactly on 0, 10, 20, MEDIUM exactly on
  30, 40, 50 and HIGH exactly on 60, 70. Both boundaries are reached: a normal
  reading with a large anomaly score in cluster 6 scores 30, an outlier with a small
  anomaly score in cluster 7 scores 60.
\<close>

theorem C9_score_values:
  "risk_score f a c \<in> {0, 10, 20, 30, 40, 50, 60, 70}
   \<and> (risk_level (risk_score f a c) = ''LOW'') = (risk_score f a c \<in> {0, 10, 20})
   \<and> (risk_level (risk_score f a c) = ''MEDIUM'') = (risk_score f a c \<in> {30, 40, 50})
   \<and> (risk_level (risk_score f a c) = ''HIGH'') = (risk_score f a c \<in> {60, 70})
   \<and> risk_score 1 (Finite (20 / 100)) 6 = 30
   \<and> risk_score (- 1) (Finite (5 / 100)) 7 = 60"
proof -
  have v: "risk_score f a c \<in> {0, 10, 20, 30, 40, 50, 60, 70}"
    by (rule risk_score_values)
  have l: "(risk_level (risk_score f a c) = ''LOW'') = (risk_score f a c \<in> {0, 10, 20})"
    unfolding risk_level_LOW using v by auto
  have m: "(risk_level (risk_score f a c) = ''MEDIUM'') = (risk_score f a c \<in> {30, 40, 50})"
    unfolding risk_level_MEDIUM using v by auto
  have h: "(risk_level (risk_score f a c) = ''HIGH'') = (risk_score f a c \<in> {60, 70})"
    unfolding risk_level_HIGH using v by auto
  have b1: "risk_score 1 (Finite (20 / 100)) 6 = 30" by (simp add: risk_score_def)
  have b2: "risk_score (- 1) (Finite (5 / 100)) 7 = 60" by (simp add: risk_score_def)
  show ?thesis by (intro conjI v l m h b1 b2)
qed

theorem C9_score_values_witness:
  "risk_level (risk_score 1 (Finite (20 / 100)) 6) = ''MEDIUM''
   \<and> risk_level (risk_score (- 1) (Finite (5 / 100)) 7) = ''HIGH''"
proof -
  note a = C9_score_values [of 1 "Finite (20 / 100)" 6]
  note b = C9_score_values [of "- 1" "Finite (5 / 100)" 7]
  from a have s30: "risk_score 1 (Finite (20 / 100)) 6 = 30" by (elim conjE)
  from a have "(risk_level (risk_score 1 (Finite (20 / 100)) 6) = ''MEDIUM'')
      = (risk_score 1 (Finite (20 / 100)) 6 \<in> {30, 40, 50})" by (elim conjE)
  then have m: "risk_level (risk_score 1 (Finite (20 / 100)) 6) = ''MEDIUM''"
    unfolding s30 by simp
  from b have s60: "risk_score (- 1) (Finite (5 / 100)) 7 = 60" by (elim conjE)
  from b have "(risk_level (risk_score (- 1) (Finite (5 / 100)) 7) = ''HIGH'')
      = (risk_score (- 1) (Finite (5 / 100)) 7 \<in> {60, 70})" by (elim conjE)
  then have h: "risk_level (risk_score (- 1) (Finite (5 / 100)) 7) = ''HIGH''"
    unfolding s60 by simp
  from m h show ?thesis by (intro conjI)
qed

theorem C1_classify_witness:
  "risk_score (- 1) (Finite (5 / 100)) 1 = 40 \<and> risk_level 40 = ''MEDIUM''
   \<and> risk_level 29 = ''LOW'' \<and> risk_level 59 = ''MEDIUM''"
  using C1_classify [of "- 1" "Finite (5 / 100)" 1 0 40] C1_classify [of 0 NaN 0 0 29]
    C1_classify [of 0 NaN 0 0 59]
  by simp

section \<open>A failing scoring step\<close>

lemma serve_Inl:
  assumes "iot_ingest model db_commit data w = (Inl e, w)" and "tasks w = []"
  shows "serve model db_commit mgr data w m = (Inl e, w, [], m)"
  using assms by (simp add: serve_def)

text \<open>
  C3. When the anomaly detection or the cluster assignment raises, the call ends with
  an exception and leaves the process as it found it: the store has no new row of any
  kind (the anomaly row staged before a failing cluster step is never committed) and
  no broadcast task is created; served to the end on an idle loop, the request makes no
  call on the manager, whatever the manager is.
\<close>

theorem C3_oracle_failure:
  assumes "detect_anomalies model (make_df data) = Inl e
           \<or> cluster model (make_df data) = Inl e"
  shows "\<exists>e'. iot_ingest model db_commit data w = (Inl e', w)
     \<and> committed (snd (iot_ingest model db_commit data w)) = committed w
     \<and> new_rows w (snd (iot_ingest model db_commit data w)) = []
     \<and> tasks (snd (iot_ingest model db_commit data w)) = tasks w
     \<and> (tasks w = [] \<longrightarrow> serve model db_commit mgr data w m = (Inl e', w, [], m))"
proof -
  have "\<exists>e'. iot_ingest model db_commit data w = (Inl e', w)"
  proof (cases "detect_anomalies model (make_df data)")
    case (Inl e1)
    from iot_ingest_detect_fails [OF this] show ?thesis by blast
  next
    case (Inr p)
    with assms have "cluster model (make_df data) = Inl e" by simp
    from iot_ingest_cluster_fails [OF Inr this] show ?thesis by blast
  qed
  then obtain e' where r: "iot_ingest model db_commit data w = (Inl e', w)" ..
  have n: "new_rows w w = []" by (simp add: new_rows_def)
  have s: "tasks w = [] \<longrightarrow> serve model db_commit mgr data w m = (Inl e', w, [], m)"
    using serve_Inl [where mgr = mgr and m = m, OF r] by blast
  show ?thesis
    by (rule exI [of _ e']) (simp add: r n s)
qed

theorem C3_oracle_failure_witness:
  "iot_ingest ex_broken_model ex_commit ex_data ex_world
     = (Inl (Exception ''model not loaded''), ex_world)
   \<and> serve ex_broken_model ex_commit ex_failing_manager ex_data ex_world ()
     = (Inl (Exception ''model not loaded''), ex_world, [], ())"
proof -
  have h: "detect_anomalies ex_broken_model (make_df ex_data) = Inl (Exception ''model not loaded'')
           \<or> cluster ex_broken_model (make_df ex_data) = Inl (Exception ''model not loaded'')"
    by (simp add: ex_broken_model_def)
  from C3_oracle_failure [OF h, of ex_commit ex_world ex_failing_manager "()"]
  obtain e' where
    r: "iot_ingest ex_broken_model ex_commit ex_data ex_world = (Inl e', ex_world)"
    and s: "tasks ex_world = [] \<longrightarrow>
      serve ex_broken_model ex_commit ex_failing_manager ex_data ex_world () = (Inl e', ex_world, [], ())"
    by (elim exE conjE)
  have "iot_ingest ex_broken_model ex_commit ex_data ex_world
     = (Inl (Exception ''model not loaded''), ex_world)"
    by (rule iot_ingest_cluster_fails) (simp_all add: ex_broken_model_def)
  with r have e': "e' = Exception ''model not loaded''" by simp
  have "tasks ex_world = []" by (simp add: ex_world_def)
  with r s e' show ?thesis by simp
qed


section \<open>The three rows of a call\<close>

text \<open>
  C4. For every call of the endpoint in which both steps of the model return and the
  commit does not raise, the call returns a result and has added to the store exactly
  one anomaly row, one cluster row and one risk row, all from the verdict of the model
  in that call: the risk row holds the model's integer anomaly code and its cluster
  id, the anomaly row's flag is true exactly when that code is the outlier code \<open>-1\<close>,
  and the cluster row holds the same cluster id.
\<close>

theorem C4_one_of_each:
  assumes "detect_anomalies model (make_df data) = Inr (f, a)"
    and "cluster model (make_df data) = Inr c"
    and "db_commit (staged data f a c) = None"
  shows "\<exists>result w'.
       iot_ingest model db_commit data w = (Inr result, w')
     \<and> committed w' = committed w @ new_rows w w'
     \<and> anomaly_logs (new_rows w w') =
         [\<lparr>al_timestamp = timestamp data, al_value = Weekly_Sales data,
           al_score = a, al_is_anomaly = (f = - 1)\<rparr>]
     \<and> cluster_logs (new_rows w w') =
         [\<lparr>cl_store = store data, cl_dept = dept data,
           cl_cluster = c, cl_features = to_dict data\<rparr>]
     \<and> risk_logs (new_rows w w') =
         [\<lparr>rl_store = store data, rl_dept = dept data,
           rl_risk_score = risk_score f a c,
           rl_risk_level = risk_level (risk_score f a c),
           rl_anomaly = f, rl_cluster = c\<rparr>]
     \<and> map al_is_anomaly (anomaly_logs (new_rows w w')) =
         map (\<lambda>r. rl_anomaly r = - 1) (risk_logs (new_rows w w'))
     \<and> map cl_cluster (cluster_logs (new_rows w w')) =
         map rl_cluster (risk_logs (new_rows w w'))"
proof -
  let ?r = "summary f a c"
  let ?w = "w\<lparr>committed := committed w @ staged data f a c,
        tasks := tasks w @ [(to_dict data, ?r)]\<rparr>"
  have run: "iot_ingest model db_commit data w = (Inr ?r, ?w)"
    by (rule iot_ingest_ok [where db_commit = db_commit, OF assms])
  have cm: "committed ?w = committed w @ staged data f a c" by simp
  have n: "new_rows w ?w = staged data f a c"
    by (rule new_rows_append [OF cm])
  have 1: "committed ?w = committed w @ new_rows w ?w"
    unfolding n by (rule cm)
  have 2: "anomaly_logs (new_rows w ?w) =
         [\<lparr>al_timestamp = timestamp data, al_value = Weekly_Sales data,
           al_score = a, al_is_anomaly = (f = - 1)\<rparr>]"
    unfolding n by (rule anomaly_logs_staged)
  have 3: "cluster_logs (new_rows w ?w) =
         [\<lparr>cl_store = store data, cl_dept = dept data,
           cl_cluster = c, cl_features = to_dict data\<rparr>]"
    unfolding n by (rule cluster_logs_staged)
  have 4: "risk_logs (new_rows w ?w) =
         [\<lparr>rl_store = store data, rl_dept = dept data,
           rl_risk_score = risk_score f a c,
           rl_risk_level = risk_level (risk_score f a c),
           rl_anomaly = f, rl_cluster = c\<rparr>]"
    unfolding n by (rule risk_logs_staged)
  have 5: "map al_is_anomaly (anomaly_logs (new_rows w ?w)) =
         map (\<lambda>r. rl_anomaly r = - 1) (risk_logs (new_rows w ?w))"
    unfolding 2 4 by simp
  have 6: "map cl_cluster (cluster_logs (new_rows w ?w)) =
         map rl_cluster (risk_logs (new_rows w ?w))"
    unfolding 3 4 by simp
  show ?thesis
    by (rule exI [of _ ?r], rule exI [of _ ?w]) (intro conjI run 1 2 3 4 5 6)
qed

theorem C4_one_of_each_witness:
  "anomaly_logs (new_rows ex_world
       (snd (iot_ingest ex_outlier_model ex_commit ex_data ex_world))) =
     [\<lparr>al_timestamp = ''2025-01-01T00:00:00'', al_value = Finite 25000,
       al_score = Finite (20 / 100), al_is_anomaly = True\<rparr>]
   \<and> map cl_cluster (cluster_logs (new_rows ex_world
       (snd (iot_ingest ex_outlier_model ex_commit ex_data ex_world)))) = [7]
   \<and> map rl_anomaly (risk_logs (new_rows ex_world
       (snd (iot_ingest ex_outlier_model ex_commit ex_data ex_world)))) = [- 1]
   \<and> map rl_cluster (risk_logs (new_rows ex_world
       (snd (iot_ingest ex_outlier_model ex_commit ex_data ex_world)))) = [7]"
proof -
  have d: "detect_anomalies ex_outlier_model (make_df ex_data) = Inr (- 1, Finite (20 / 100))"
    by (simp add: ex_outlier_model_def)
  have c: "cluster ex_outlier_model (make_df ex_data) = Inr 7"
    by (simp add: ex_outlier_model_def)
  have k: "ex_commit (staged ex_data (- 1) (Finite (20 / 100)) 7) = None"
    by (simp add: ex_commit_def)
  from C4_one_of_each [where db_commit = ex_commit and w = ex_world, OF d c k]
  obtain result w' where
    run: "iot_ingest ex_outlier_model ex_commit ex_data ex_world = (Inr result, w')"
    and al: "anomaly_logs (new_rows ex_world w') =
         [\<lparr>al_timestamp = timestamp ex_data, al_value = Weekly_Sales ex_data,
           al_score = Finite (20 / 100), al_is_anomaly = (- 1 = (- 1 :: int))\<rparr>]"
    and cl: "cluster_logs (new_rows ex_world w') =
         [\<lparr>cl_store = store ex_data, cl_dept = dept ex_data,
           cl_cluster = 7, cl_features = to_dict ex_data\<rparr>]"
    and rl: "risk_logs (new_rows ex_world w') =
         [\<lparr>rl_store = store ex_data, rl_dept = dept ex_data,
           rl_risk_score = risk_score (- 1) (Finite (20 / 100)) 7,
           rl_risk_level = risk_level (risk_score (- 1) (Finite (20 / 100)) 7),
           rl_anomaly = - 1, rl_cluster = 7\<rparr>]"
    by (elim exE conjE)
  show ?thesis
    unfolding run snd_conv al cl rl by (simp add: ex_data_def)
qed

text \<open>
  The statement does not extend to every call, and the two anomaly fields are not the
  same value. When the cluster step raises, the call adds no row of any kind, the
  anomaly row staged before it included. On a reading the model finds normal (code
  \<open>1\<close>) the anomaly row's flag is false while the risk row's anomaly field is \<open>1\<close>.
\<close>

theorem C4_one_of_each_counterexample:
  "iot_ingest ex_broken_model ex_commit ex_data ex_world =
     (Inl (Exception ''model not loaded''), ex_world)
   \<and> anomaly_logs (new_rows ex_world
       (snd (iot_ingest ex_broken_model ex_commit ex_data ex_world))) = []
   \<and> cluster_logs (new_rows ex_world
       (snd (iot_ingest ex_broken_model ex_commit ex_data ex_world))) = []
   \<and> risk_logs (new_rows ex_world
       (snd (iot_ingest ex_broken_model ex_commit ex_data ex_world))) = []
   \<and> map al_is_anomaly (anomaly_logs (new_rows ex_world
       (snd (iot_ingest ex_normal_model ex_commit ex_data ex_world)))) = [False]
   \<and> map rl_anomaly (risk_logs (new_rows ex_world
       (snd (iot_ingest ex_normal_model ex_commit ex_data ex_world)))) = [1]"
proof -
  have b: "iot_ingest ex_broken_model ex_commit ex_data ex_world =
     (Inl (Exception ''model not loaded''), ex_world)"
    by (rule iot_ingest_cluster_fails) (simp_all add: ex_broken_model_def)
  have e: "new_rows ex_world ex_world = []" by (simp add: new_rows_def)
  have cm: "committed (snd (iot_ingest ex_normal_model ex_commit ex_data ex_world)) =
      committed ex_world @ staged ex_data 1 (Finite (5 / 100)) 1"
    unfolding ex_normal_run by simp
  have n: "new_rows ex_world (snd (iot_ingest ex_normal_model ex_commit ex_data ex_world)) =
      staged ex_data 1 (Finite (5 / 100)) 1"
    by (rule new_rows_append [OF cm])
  show ?thesis
    unfolding b snd_conv e n by simp
qed

section \<open>An outlier in cluster 7\<close>

text \<open>
  C5. When the model marks the record an outlier (code \<open>-1\<close>) with anomaly score 0.20
  and assigns cluster 7, and the commit does not raise, the call returns a result with
  risk score 70 and level HIGH, the risk row has the same score and level, and one
  alert with score 70 is among the rows it added.
\<close>

theorem C5_outlier_in_cluster_7:
  assumes "detect_anomalies model (make_df data) = Inr (- 1, Finite (20 / 100))"
    and "cluster model (make_df data) = Inr 7"
    and "db_commit (staged data (- 1) (Finite (20 / 100)) 7) = None"
  shows "\<exists>result w'.
       iot_ingest model db_commit data w = (Inr result, w')
     \<and> risk_score (- 1) (Finite (20 / 100)) 7 = 70
     \<and> dict_get result ''risk_score'' = PInt 70
     \<and> dict_get result ''risk_level'' = PStr ''HIGH''
     \<and> map rl_risk_score (risk_logs (new_rows w w')) = [70]
     \<and> map rl_risk_level (risk_logs (new_rows w w')) = [''HIGH'']
     \<and> committed w' = committed w @ new_rows w w'
     \<and> alerts (new_rows w w') =
         [\<lparr>at_store = store data, at_dept = dept data,
           at_message = high_risk_message, at_risk_score = 70\<rparr>]"
proof -
  let ?r = "summary (- 1) (Finite (20 / 100)) 7"
  let ?w = "w\<lparr>committed := committed w @ staged data (- 1) (Finite (20 / 100)) 7,
        tasks := tasks w @ [(to_dict data, ?r)]\<rparr>"
  have run: "iot_ingest model db_commit data w = (Inr ?r, ?w)"
    by (rule iot_ingest_ok [where db_commit = db_commit, OF assms])
  have sc: "risk_score (- 1) (Finite (20 / 100)) 7 = 70" by (rule ex_outlier_score)
  have lv: "risk_level 70 = ''HIGH''" by (simp add: risk_level_def)
  have cm: "committed ?w = committed w @ staged data (- 1) (Finite (20 / 100)) 7" by simp
  have n: "new_rows w ?w = staged data (- 1) (Finite (20 / 100)) 7"
    by (rule new_rows_append [OF cm])
  have 1: "dict_get ?r ''risk_score'' = PInt 70"
    by (simp add: dict_get_def risk_score_def)
  have 2: "dict_get ?r ''risk_level'' = PStr ''HIGH''"
    by (simp add: dict_get_def risk_score_def risk_level_def)
  have 3: "map rl_risk_score (risk_logs (new_rows w ?w)) = [70]"
    unfolding n by (simp add: risk_score_def)
  have 4: "map rl_risk_level (risk_logs (new_rows w ?w)) = [''HIGH'']"
    unfolding n by (simp add: risk_score_def risk_level_def)
  have 5: "committed ?w = committed w @ new_rows w ?w"
    unfolding n by (rule cm)
  have 6: "alerts (new_rows w ?w) =
         [\<lparr>at_store = store data, at_dept = dept data,
           at_message = high_risk_message, at_risk_score = 70\<rparr>]"
    unfolding n by (simp add: risk_score_def risk_level_def)
  show ?thesis
    by (rule exI [of _ ?r], rule exI [of _ ?w]) (intro conjI run sc 1 2 3 4 5 6)
qed

theorem C5_outlier_in_cluster_7_witness:
  "(case fst (iot_ingest ex_outlier_model ex_commit ex_data ex_world) of
      Inl e \<Rightarrow> [] | Inr result \<Rightarrow> map (dict_get result) [''risk_score'', ''risk_level''])
     = [PInt 70, PStr ''HIGH'']
   \<and> alerts (new_rows ex_world (snd (iot_ingest ex_outlier_model ex_commit ex_data ex_world))) =
       [\<lparr>at_store = 12, at_dept = 34, at_message = high_risk_message, at_risk_score = 70\<rparr>]"
proof -
  have d: "detect_anomalies ex_outlier_model (make_df ex_data) = Inr (- 1, Finite (20 / 100))"
    by (simp add: ex_outlier_model_def)
  have c: "cluster ex_outlier_model (make_df ex_data) = Inr 7"
    by (simp add: ex_outlier_model_def)
  have k: "ex_commit (staged ex_data (- 1) (Finite (20 / 100)) 7) = None"
    by (simp add: ex_commit_def)
  from C5_outlier_in_cluster_7 [where db_commit = ex_commit and w = ex_world, OF d c k]
  obtain result w' where
    run: "iot_ingest ex_outlier_model ex_commit ex_data ex_world = (Inr result, w')"
    and s: "dict_get result ''risk_score'' = PInt 70"
    and l: "dict_get result ''risk_level'' = PStr ''HIGH''"
    and al: "alerts (new_rows ex_world w') =
         [\<lparr>at_store = store ex_data, at_dept = dept ex_data,
           at_message = high_risk_message, at_risk_score = 70\<rparr>]"
    by (elim exE conjE)
  show ?thesis
    unfolding run by (simp add: s l al ex_data_def)
qed

section \<open>The response\<close>

text \<open>
  C8. The response of every call that returns a result is the dictionary with exactly
  the six keys status, anomaly, anomaly_score, cluster, risk_level and risk_score, in
  this order: the status is the string success, anomaly is the integer code the model
  returned, anomaly_score the float it returned, cluster the integer cluster id,
  risk_score the integer score of these three and risk_level its level, one of the
  strings LOW, MEDIUM and HIGH.
\<close>

theorem C8_response:
  assumes "iot_ingest model db_commit data w = (Inr result, w')"
  shows "\<exists>f a c.
       detect_anomalies model (make_df data) = Inr (f, a)
     \<and> cluster model (make_df data) = Inr c
     \<and> result =
         [(''status'', PStr ''success''),
          (''anomaly'', PInt f),
          (''anomaly_score'', PFloat a),
          (''cluster'', PInt c),
          (''risk_level'', PStr (risk_level (risk_score f a c))),
          (''risk_score'', PInt (risk_score f a c))]
     \<and> map fst result =
         [''status'', ''anomaly'', ''anomaly_score'', ''cluster'', ''risk_level'', ''risk_score'']
     \<and> (risk_level (risk_score f a c) = ''LOW''
          \<or> risk_level (risk_score f a c) = ''MEDIUM''
          \<or> risk_level (risk_score f a c) = ''HIGH'')"
proof -
  from iot_ingest_Inr [OF assms] obtain f a c where
    d: "detect_anomalies model (make_df data) = Inr (f, a)"
    and c: "cluster model (make_df data) = Inr c"
    and r: "result = summary f a c"
    by blast
  have k: "map fst result =
         [''status'', ''anomaly'', ''anomaly_score'', ''cluster'', ''risk_level'', ''risk_score'']"
    unfolding r by simp
  show ?thesis
    by (rule exI [of _ f], rule exI [of _ a], rule exI [of _ c])
       (intro conjI d c r k risk_level_cases)
qed

theorem C8_response_witness:
  "fst (iot_ingest ex_normal_model ex_commit ex_data ex_world) =
     Inr [(''status'', PStr ''success''), (''anomaly'', PInt 1),
          (''anomaly_score'', PFloat (Finite (5 / 100))), (''cluster'', PInt 1),
          (''risk_level'', PStr ''LOW''), (''risk_score'', PInt 0)]"
proof -
  from C8_response [OF ex_normal_run_snd] obtain f a c where
    d: "detect_anomalies ex_normal_model (make_df ex_data) = Inr (f, a)"
    and c: "cluster ex_normal_model (make_df ex_data) = Inr c"
    and r: "summary 1 (Finite (5 / 100)) 1 = summary f a c"
    by (elim exE conjE)
  from d have f: "f = 1" and a: "a = Finite (5 / 100)" by (simp_all add: ex_normal_model_def)
  from c have c1: "c = 1" by (simp add: ex_normal_model_def)
  have lv: "risk_level 0 = ''LOW''" by (simp add: risk_level_def)
  have "fst (iot_ingest ex_normal_model ex_commit ex_data ex_world) = Inr (summary f a c)"
    unfolding ex_normal_run fst_conv r ..
  then show ?thesis
    unfolding f a c1 ex_normal_score lv .
qed

section \<open>The broadcast task, case by case\<close>



lemma broadcast_update_returned: "returned (broadcast_update mgr data result m) = Inr ()"
  by (simp add: broadcast_update_def split: prod.split sum.split)



lemma serve_Inr:
  assumes "iot_ingest model db_commit data w = (Inr result, w')" and "tasks w = []"
  shows "serve model db_commit mgr data w m =
     (Inr result, w'\<lparr>tasks := []\<rparr>,
      [broadcast_update mgr (to_dict data) result m],
      manager_state (broadcast_update mgr (to_dict data) result m))"
proof -
  from iot_ingest_new_rows [OF assms(1)]
  have "tasks w' = tasks w @ [(to_dict data, result)]" by blast
  with assms(2) have t: "tasks w' = [(to_dict data, result)]" by simp
  show ?thesis
    by (simp add: serve_def assms(1) t Let_def)
qed


section \<open>The broadcast does not reach back into the call\<close>

text \<open>
  C6. A call that gets as far as creating the broadcast task has built its result
  before: the task it appends to the pending ones carries that very result, and the
  call returns with the task still pending. Whatever the manager does, \<open>broadcast_update\<close>
  on that task returns without an exception, and the request served to the end on an
  idle loop has the response and the store of the call itself, for every manager and
  every state of it.
\<close>

theorem C6_broadcast_cannot_fail_ingest:
  assumes "iot_ingest model db_commit data w = (Inr result, w')"
  shows "tasks w' = tasks w @ [(to_dict data, result)]
     \<and> returned (broadcast_update mgr (to_dict data) result m) = Inr ()
     \<and> (tasks w = [] \<longrightarrow>
          serve model db_commit mgr data w m =
            (Inr result, w'\<lparr>tasks := []\<rparr>,
             [broadcast_update mgr (to_dict data) result m],
             manager_state (broadcast_update mgr (to_dict data) result m)))"
proof -
  from iot_ingest_new_rows [OF assms]
  have t: "tasks w' = tasks w @ [(to_dict data, result)]" by blast
  have s: "tasks w = [] \<longrightarrow>
          serve model db_commit mgr data w m =
            (Inr result, w'\<lparr>tasks := []\<rparr>,
             [broadcast_update mgr (to_dict data) result m],
             manager_state (broadcast_update mgr (to_dict data) result m))"
    using serve_Inr [where mgr = mgr and m = m, OF assms] by blast
  show ?thesis
    by (intro conjI t s broadcast_update_returned)
qed

theorem C6_broadcast_cannot_fail_ingest_witness:
  "fst (serve ex_outlier_model ex_commit ex_failing_manager ex_data ex_world ()) =
     fst (iot_ingest ex_outlier_model ex_commit ex_data ex_world)
   \<and> fst (snd (snd (serve ex_outlier_model ex_commit ex_failing_manager ex_data ex_world ()))) =
     [\<lparr>returned = Inr (),
       calls = [Broadcast_iot_update (to_dict ex_data) (summary (- 1) (Finite (20 / 100)) 7)],
       logged = [Exception ''connection closed''],
       manager_state = ()\<rparr>]"
proof -
  have idle: "tasks ex_world = []" by (simp add: ex_world_def)
  from C6_broadcast_cannot_fail_ingest
    [where mgr = ex_failing_manager and m = "()", OF ex_outlier_run_snd] idle
  have s: "serve ex_outlier_model ex_commit ex_failing_manager ex_data ex_world () =
      (Inr (summary (- 1) (Finite (20 / 100)) 7),
       (snd (iot_ingest ex_outlier_model ex_commit ex_data ex_world))\<lparr>tasks := []\<rparr>,
       [broadcast_update ex_failing_manager (to_dict ex_data)
          (summary (- 1) (Finite (20 / 100)) 7) ()],
       manager_state (broadcast_update ex_failing_manager (to_dict ex_data)
          (summary (- 1) (Finite (20 / 100)) 7) ()))"
    by blast
  have b: "broadcast_update ex_failing_manager (to_dict ex_data)
          (summary (- 1) (Finite (20 / 100)) 7) () =
     \<lparr>returned = Inr (),
       calls = [Broadcast_iot_update (to_dict ex_data) (summary (- 1) (Finite (20 / 100)) 7)],
       logged = [Exception ''connection closed''],
       manager_state = ()\<rparr>"
    by (simp add: broadcast_update_def broadcast_try_def ex_failing_manager_def)
  have f: "fst (iot_ingest ex_outlier_model ex_commit ex_data ex_world)
      = Inr (summary (- 1) (Finite (20 / 100)) 7)"
    unfolding ex_outlier_run by simp
  show ?thesis
    unfolding s f b by simp
qed

section \<open>Update, then alert\<close>




section \<open>The alert row and the alert notification\<close>




end
